theory Spec2Isabelle
  imports Complex_Main "HOL-Library.Sublist"
begin

section \<open>JavaScript strings and arrays\<close>

text \<open>
  A JavaScript string is modelled as a \<^typ>\<open>string\<close>; one \<^typ>\<open>char\<close> stands for one
  code unit below 256. The functions of this section are the built-in string and array
  methods that \<^verbatim>\<open>src/action.ts\<close> calls.
\<close>

text \<open>\<^verbatim>\<open>Array.prototype.join\<close> on an array of strings.\<close>

fun array_join :: "string \<Rightarrow> string list \<Rightarrow> string" where
  "array_join s [] = []"
| "array_join s [x] = x"
| "array_join s (x # y # ys) = x @ s @ array_join s (y # ys)"

text \<open>
  The first occurrence of a pattern in a string: the text before it and the text after
  it, or \<open>None\<close> when the pattern does not occur.
\<close>

fun split_first :: "string \<Rightarrow> string \<Rightarrow> (string \<times> string) option" where
  "split_first p [] = (if p = [] then Some ([], []) else None)"
| "split_first p (c # cs) =
     (if prefix p (c # cs) then Some ([], drop (length p) (c # cs))
      else case split_first p cs of
             None \<Rightarrow> None
           | Some (b, a) \<Rightarrow> Some (c # b, a))"

text \<open>
  The replacement patterns of \<^verbatim>\<open>String.prototype.replace\<close> for a string pattern, which
  has no capture groups: \<^verbatim>\<open>$$\<close> is a dollar sign, \<^verbatim>\<open>$&\<close> the matched text, \<^verbatim>\<open>$`\<close>
  the text before the match and \<^verbatim>\<open>$'\<close> the text after it; every other character is
  copied.
\<close>

fun getSubstitution :: "string \<Rightarrow> string \<Rightarrow> string \<Rightarrow> string \<Rightarrow> string" where
  "getSubstitution m b a [] = []"
| "getSubstitution m b a [c] = [c]"
| "getSubstitution m b a (c # d # cs) =
     (if c = CHR ''$'' \<and> d = CHR ''$'' then CHR ''$'' # getSubstitution m b a cs
      else if c = CHR ''$'' \<and> d = CHR ''&'' then m @ getSubstitution m b a cs
      else if c = CHR ''$'' \<and> d = CHR 0x60 then b @ getSubstitution m b a cs
      else if c = CHR ''$'' \<and> d = CHR 0x27 then a @ getSubstitution m b a cs
      else c # getSubstitution m b a (d # cs))"

text \<open>\<^verbatim>\<open>str.replace(pattern, replacement)\<close> with a string pattern: the first occurrence only.\<close>

definition replace :: "string \<Rightarrow> string \<Rightarrow> string \<Rightarrow> string" where
  "replace str p r =
     (case split_first p str of
        None \<Rightarrow> str
      | Some (b, a) \<Rightarrow> b @ getSubstitution p b a r @ a)"

text \<open>
  \<^verbatim>\<open>String.prototype.trimRight\<close>: the white space and line terminators among the code
  units below 256 are tab, line feed, vertical tab, form feed, carriage return, space and
  the no-break space.
\<close>

definition isWhiteSpace :: "char \<Rightarrow> bool" where
  "isWhiteSpace c \<longleftrightarrow>
     c \<in> set [CHR 0x09, CHR 0x0A, CHR 0x0B, CHR 0x0C, CHR 0x0D, CHR 0x20, CHR 0xA0]"

definition trimRight :: "string \<Rightarrow> string" where
  "trimRight str = rev (dropWhile isWhiteSpace (rev str))"

text \<open>
  The decimal rendering of an integer, which is what a template literal produces for an
  integral number (the counts of a test run are far below \<open>2 ^ 53\<close>).
\<close>

definition digit :: "nat \<Rightarrow> char" where
  "digit n = ''0123456789'' ! (n mod 10)"

fun string_of_nat :: "nat \<Rightarrow> string" where
  "string_of_nat n =
     (if n < 10 then [digit n] else string_of_nat (n div 10) @ [digit n])"

definition string_of_int :: "int \<Rightarrow> string" where
  "string_of_int i = (if i < 0 then CHR ''-'' # string_of_nat (nat (- i)) else string_of_nat (nat i))"

section \<open>The data model\<close>

text \<open>
  The test runner's result document (\<^verbatim>\<open>FormattedTestResults\<close> of \<^verbatim>\<open>@jest/test-result\<close>),
  restricted to the fields the action reads. An optional field is an \<^typ>\<open>'a option\<close>.
\<close>

record callsite =
  column :: int
  line :: int

record assertion =
  status :: string
  ancestorTitles :: "string list"
  title :: string
  location :: "callsite option"
  failureMessages :: "string list option"

record testResult =
  name :: string
  message :: string
  assertionResults :: "assertion list"

text \<open>
  The coverage map of the result document (\<^verbatim>\<open>CoverageMapData\<close> of
  \<^verbatim>\<open>istanbul-lib-coverage\<close>) is an object from file names to the coverage data of a
  file, here an association list in the order of \<^verbatim>\<open>Object.entries\<close>. The coverage data
  of a file is represented by the summary that its file coverage object computes: the
  percentages of the four metrics. The type \<^typ>\<open>'n\<close> is the type of the percentages
  (JavaScript numbers).
\<close>

record 'n totals =
  pct :: 'n

record 'n coverageSummaryData =
  lines :: "'n totals"
  statements :: "'n totals"
  "functions" :: "'n totals"
  branches :: "'n totals"

type_synonym 'n coverageMapData = "(string \<times> 'n coverageSummaryData) list"

text \<open>
  A file coverage object, as \<^verbatim>\<open>covMap.data\<close> holds them. \<open>toSummary = None\<close> stands for
  an object for which \<^verbatim>\<open>data.toSummary == null\<close>, the test of the loop in
  \<^verbatim>\<open>getCoverageTable\<close>.
\<close>

record 'n fileCoverage =
  toSummary :: "'n coverageSummaryData option"

record 'n formattedTestResults =
  success :: bool
  numTotalTests :: int
  numPassedTests :: int
  numFailedTests :: int
  numTotalTestSuites :: int
  numPassedTestSuites :: int
  numFailedTestSuites :: int
  testResults :: "testResult list"
  coverageMap :: "'n coverageMapData option"

text \<open>\<^verbatim>\<open>github.context\<close>: the repository, the triggering commit and the event payload.\<close>

record pull_request =
  pr_number :: int
  pr_head_sha :: string
  pr_base_ref :: string

record github_context =
  repo_owner :: string
  repo_repo :: string
  context_sha :: string
  payload_pull_request :: "pull_request option"

text \<open>The check-run request and its annotations.\<close>

record annotation =
  path :: string
  start_line :: int
  end_line :: int
  annotation_level :: string
  annotation_title :: string
  annotation_message :: string

record check_output =
  output_title :: string
  output_text :: "string option"
  output_summary :: string
  output_annotations :: "annotation list"

record check_payload =
  check_owner :: string
  check_repo :: string
  check_head_sha :: string
  check_name :: string
  check_status :: string
  check_conclusion :: string
  check_output :: check_output

section \<open>Annotations and the check payload\<close>

text \<open>
  \<^verbatim>\<open>filter(result.assertionResults, ["status", "failed"])\<close> keeps the assertions whose
  status is the string \<^verbatim>\<open>failed\<close>; \<^verbatim>\<open>flatMap\<close> concatenates the lists of the file
  results in order. \<open>strip\<close> is the function of the package \<^verbatim>\<open>strip-ansi\<close>.
\<close>

definition flatMap :: "'a list \<Rightarrow> ('a \<Rightarrow> 'b list) \<Rightarrow> 'b list" where
  "flatMap xs f = concat (map f xs)"

definition getAnnotations ::
  "(string \<Rightarrow> string) \<Rightarrow> 'n formattedTestResults \<Rightarrow> string \<Rightarrow> annotation list" where
  "getAnnotations strip results cwd =
     (if success results then []
      else flatMap (testResults results) (\<lambda>result.
        map (\<lambda>assertion.
              \<lparr> path = replace (name result) cwd [],
                start_line = (case location assertion of None \<Rightarrow> 0 | Some l \<Rightarrow> line l),
                end_line = (case location assertion of None \<Rightarrow> 0 | Some l \<Rightarrow> line l),
                annotation_level = ''failure'',
                annotation_title =
                  array_join '' > '' (ancestorTitles assertion @ [title assertion]),
                annotation_message =
                  strip (case failureMessages assertion of
                           None \<Rightarrow> []
                         | Some ms \<Rightarrow> array_join [CHR 0x0A, CHR 0x0A] ms) \<rparr>)
            (filter (\<lambda>a. status a = ''failed'') (assertionResults result))))"

definition asMarkdownCode :: "string \<Rightarrow> string" where
  "asMarkdownCode str = ''```'' @ [CHR 0x0A] @ trimRight str @ [CHR 0x0A] @ ''```''"

text \<open>
  \<^verbatim>\<open>filter(xs)\<close> of lodash without a predicate keeps the truthy elements: of strings,
  the non-empty ones.
\<close>

definition getOutputText :: "(string \<Rightarrow> string) \<Rightarrow> 'n formattedTestResults \<Rightarrow> string option" where
  "getOutputText strip results =
     (if success results then None
      else let entries = filter (\<lambda>s. s \<noteq> []) (map (\<lambda>r. strip (message r)) (testResults results))
           in Some (asMarkdownCode (array_join [CHR 0x0A] entries)))"

definition getSha :: "github_context \<Rightarrow> string" where
  "getSha context =
     (case payload_pull_request context of None \<Rightarrow> context_sha context | Some pr \<Rightarrow> pr_head_sha pr)"

text \<open>\<open>getInput\<close> is \<^verbatim>\<open>core.getInput\<close>, the operator's configuration.\<close>

definition getCheckPayload ::
  "(string \<Rightarrow> string) \<Rightarrow> github_context \<Rightarrow> (string \<Rightarrow> string) \<Rightarrow>
   'n formattedTestResults \<Rightarrow> string \<Rightarrow> check_payload" where
  "getCheckPayload strip context getInput results cwd =
     \<lparr> check_owner = repo_owner context,
       check_repo = repo_repo context,
       check_head_sha = getSha context,
       check_name = getInput ''command-name'',
       check_status = ''completed'',
       check_conclusion = (if success results then ''success'' else ''failure''),
       check_output =
         \<lparr> output_title = (if success results then ''Jest tests passed'' else ''Jest tests failed''),
           output_text = getOutputText strip results,
           output_summary =
             (if success results
              then string_of_int (numPassedTests results) @ '' tests passing in ''
                   @ string_of_int (numPassedTestSuites results) @ '' suite''
                   @ (if numPassedTestSuites results > 1 then ''s'' else []) @ ''.''
              else ''Failed tests: '' @ string_of_int (numFailedTests results) @ ''/''
                   @ string_of_int (numTotalTests results) @ ''. Failed suites: ''
                   @ string_of_int (numFailedTests results) @ ''/''
                   @ string_of_int (numTotalTestSuites results) @ ''.''),
           output_annotations = getAnnotations strip results cwd \<rparr> \<rparr>"

section \<open>The coverage table\<close>

definition COVERAGE_HEADER :: string where
  "COVERAGE_HEADER = '':loop: **Code coverage**'' @ [CHR 0x0A, CHR 0x0A]"

text \<open>The result type \<^verbatim>\<open>string | false\<close> and what an \<^verbatim>\<open>if\<close> makes of it.\<close>

datatype string_or_false = JSFalse | JSString string

fun truthy :: "string_or_false \<Rightarrow> bool" where
  "truthy JSFalse = False"
| "truthy (JSString s) = (s \<noteq> [])"

text \<open>
  Modelled from the spec: \<^verbatim>\<open>createCoverageMap\<close> belongs to the package
  \<^verbatim>\<open>istanbul-lib-coverage\<close>, which is not under \<^verbatim>\<open>src/\<close>. The spec (section 3) has the
  coverage data as a mapping from file path to a per-file bundle of four metrics, each with
  a computed percentage. The function wraps the coverage data of every file in a file
  coverage object, which has a \<^verbatim>\<open>toSummary\<close> that yields these percentages, and keeps
  the file names and their order. What is no coverage data of a file is no value of the
  type: the library rejects it.
\<close>

record 'n coverageMap_object =
  data :: "(string \<times> 'n fileCoverage) list"

definition createCoverageMap :: "'n coverageMapData \<Rightarrow> 'n coverageMap_object" where
  "createCoverageMap d = \<lparr> data = map (\<lambda>(filename, s). (filename, \<lparr> toSummary = Some s \<rparr>)) d \<rparr>"

text \<open>
  The loop over \<^verbatim>\<open>Object.entries(covMap.data)\<close>: an entry without \<^verbatim>\<open>toSummary\<close> is
  skipped, every other entry pushes one row. \<open>toString\<close> is the conversion of a number to
  a string that \<^verbatim>\<open>pct + "%"\<close> applies.
\<close>

fun push_rows ::
  "('n \<Rightarrow> string) \<Rightarrow> string \<Rightarrow> (string \<times> 'n fileCoverage) list \<Rightarrow> string list list \<Rightarrow>
   string list list" where
  "push_rows toString cwd [] rows = rows"
| "push_rows toString cwd ((filename, d) # entries) rows =
     (case toSummary d of
        None \<Rightarrow> push_rows toString cwd entries rows
      | Some summary \<Rightarrow>
          push_rows toString cwd entries
            (rows @ [[replace filename cwd [],
                      toString (pct (statements summary)) @ ''%'',
                      toString (pct (branches summary)) @ ''%'',
                      toString (pct (functions summary)) @ ''%'',
                      toString (pct (lines summary)) @ ''%'']]))"

text \<open>
  \<open>table\<close> is the function of the package \<^verbatim>\<open>markdown-table\<close>, called with the rows and
  the \<^verbatim>\<open>align\<close> option.
\<close>

definition getCoverageTable ::
  "(string list list \<Rightarrow> string list \<Rightarrow> string) \<Rightarrow> ('n \<Rightarrow> string) \<Rightarrow>
   'n formattedTestResults \<Rightarrow> string \<Rightarrow> string_or_false" where
  "getCoverageTable table toString results cwd =
     (case coverageMap results of
        None \<Rightarrow> JSString []
      | Some m \<Rightarrow>
          let covMap = createCoverageMap m;
              rows = [[''Filename'', ''Statements'', ''Branches'', ''Functions'', ''Lines'']]
          in if length (data covMap) = 0 then JSFalse
             else JSString (COVERAGE_HEADER
                    @ table (push_rows toString cwd (data covMap) rows)
                        [''l'', ''r'', ''r'', ''r'', ''r'']))"

section \<open>The platform client and the run\<close>

record user =
  login :: string

record comment =
  comment_id :: int
  user :: user
  body :: string

record listComments_params =
  lc_owner :: string
  lc_repo :: string
  lc_per_page :: int
  lc_issue_number :: int

record deleteComment_params =
  dc_owner :: string
  dc_repo :: string
  dc_comment_id :: int

record comment_payload =
  cc_owner :: string
  cc_repo :: string
  cc_body :: string
  cc_issue_number :: int

text \<open>
  The client answers each request: \<open>Some e\<close> and \<open>Inl e\<close> are a request that fails with
  the error message \<open>e\<close>.
\<close>

record octokit =
  checks_create :: "check_payload \<Rightarrow> string option"
  issues_listComments :: "listComments_params \<Rightarrow> string + comment list"
  issues_deleteComment :: "deleteComment_params \<Rightarrow> string option"
  issues_createComment :: "comment_payload \<Rightarrow> string option"

text \<open>
  What a run does to the outside: the command it executes, the requests it sends and the
  failures it reports. Log groups and debug output are left out.
\<close>

datatype effect =
    Exec string
  | ChecksCreate check_payload
  | ListComments listComments_params
  | DeleteComment deleteComment_params
  | CreateComment comment_payload
  | CoreError string
  | SetFailed string

text \<open>
  A computation yields the effects it performed and then either throws (\<open>Inl\<close>, with the
  error's message) or returns a value.
\<close>

type_synonym 'a io = "effect list \<times> (string + 'a)"

definition bind_io :: "'a io \<Rightarrow> ('a \<Rightarrow> 'b io) \<Rightarrow> 'b io" where
  "bind_io m f =
     (case m of
        (tr, Inl e) \<Rightarrow> (tr, Inl e)
      | (tr, Inr x) \<Rightarrow> (case f x of (tr', r) \<Rightarrow> (tr @ tr', r)))"

definition pure_io :: "string + 'a \<Rightarrow> 'a io" where
  "pure_io r = ([], r)"

definition request :: "effect \<Rightarrow> string option \<Rightarrow> unit io" where
  "request c r = ([c], case r of None \<Rightarrow> Inr () | Some e \<Rightarrow> Inl e)"

text \<open>
  \<^verbatim>\<open>Promise.all\<close> over requests that have all been sent: it fails when one of them
  fails (here with the first failure in list order).
\<close>

fun promise_all :: "string option list \<Rightarrow> string + unit" where
  "promise_all [] = Inr ()"
| "promise_all (None # rs) = promise_all rs"
| "promise_all (Some e # rs) = Inl e"

datatype json =
    JNull
  | JBool bool
  | JNumber rat
  | JString string
  | JArray "json list"
  | JObject "(string \<times> json) list"

fun Boolean :: "json \<Rightarrow> bool" where
  "Boolean JNull = False"
| "Boolean (JBool b) = b"
| "Boolean (JNumber n) = (n \<noteq> 0)"
| "Boolean (JString s) = (s \<noteq> [])"
| "Boolean (JArray xs) = True"
| "Boolean (JObject kvs) = True"

text \<open>
  The process, the operator's configuration, the event and the collaborators of a run.
  \<open>results_document\<close> is the outcome of reading and parsing the file at a path once the
  test command has run.
\<close>

record 'n world =
  process_cwd :: string
  sep :: string
  path_join :: "string \<Rightarrow> string \<Rightarrow> string"
  process_env_GITHUB_TOKEN :: "string option"
  core_getInput :: "string \<Rightarrow> string"
  JSON_parse :: "string \<Rightarrow> string + json"
  github_context :: github_context
  results_document :: "string \<Rightarrow> string + 'n formattedTestResults"
  getOctokit :: "string \<Rightarrow> octokit"

definition getPullId :: "github_context \<Rightarrow> int" where
  "getPullId context =
     (case payload_pull_request context of None \<Rightarrow> 0 | Some pr \<Rightarrow> pr_number pr)"

definition getCommentPayload :: "github_context \<Rightarrow> string \<Rightarrow> comment_payload" where
  "getCommentPayload context b =
     \<lparr> cc_owner = repo_owner context,
       cc_repo = repo_repo context,
       cc_body = b,
       cc_issue_number = getPullId context \<rparr>"

definition deletePreviousComments :: "octokit \<Rightarrow> github_context \<Rightarrow> unit io" where
  "deletePreviousComments octokit context =
     (let params = \<lparr> lc_owner = repo_owner context,
                     lc_repo = repo_repo context,
                     lc_per_page = 100,
                     lc_issue_number = getPullId context \<rparr>
      in case issues_listComments octokit params of
           Inl e \<Rightarrow> ([ListComments params], Inl e)
         | Inr cs \<Rightarrow>
             let deletions =
                   map (\<lambda>c. \<lparr> dc_owner = repo_owner context,
                              dc_repo = repo_repo context,
                              dc_comment_id = comment_id c \<rparr>)
                     (filter (\<lambda>c. login (user c) = ''github-actions[bot]''
                                  \<and> prefix COVERAGE_HEADER (body c)) cs)
             in (ListComments params # map DeleteComment deletions,
                 promise_all (map (issues_deleteComment octokit) deletions)))"

definition shouldCommentCoverage :: "'n world \<Rightarrow> string + bool" where
  "shouldCommentCoverage w =
     (case JSON_parse w (core_getInput w ''coverage-comment'') of
        Inl e \<Rightarrow> Inl e
      | Inr v \<Rightarrow> Inr (Boolean v))"

definition shouldRunOnlyChangedFiles :: "'n world \<Rightarrow> string + bool" where
  "shouldRunOnlyChangedFiles w =
     (case JSON_parse w (core_getInput w ''changes-only'') of
        Inl e \<Rightarrow> Inl e
      | Inr v \<Rightarrow> Inr (Boolean v))"

definition getJestCommand :: "'n world \<Rightarrow> string \<Rightarrow> string + string" where
  "getJestCommand w resultsFile =
     (let cmd = core_getInput w ''test-command'';
          jestOptions = ''--testLocationInResults --json --outputFile='' @ [CHR 0x22]
                        @ resultsFile @ [CHR 0x22]
      in case shouldCommentCoverage w of
           Inl e \<Rightarrow> Inl e
         | Inr cc \<Rightarrow>
             (let jestOptions = (if cc then jestOptions @ '' --coverage'' else jestOptions)
              in (case shouldRunOnlyChangedFiles w of
                    Inl e \<Rightarrow> Inl e
                  | Inr co \<Rightarrow>
                      (let jestOptions =
                             (case payload_pull_request (github_context w) of
                                None \<Rightarrow> jestOptions
                              | Some pr \<Rightarrow>
                                  if co \<and> pr_base_ref pr \<noteq> []
                                  then jestOptions @ '' --changedSince='' @ pr_base_ref pr
                                  else jestOptions)
                       in Inr (replace cmd ''{{args}}'' jestOptions)))))"

definition parseResults :: "'n world \<Rightarrow> string \<Rightarrow> string + 'n formattedTestResults" where
  "parseResults w resultsFile = results_document w resultsFile"

text \<open>\<^verbatim>\<open>execJest\<close> runs the command and swallows its failure.\<close>

definition execJest :: "string \<Rightarrow> unit io" where
  "execJest cmd = ([Exec cmd], Inr ())"

text \<open>
  The body of the \<^verbatim>\<open>try\<close> block of \<^verbatim>\<open>run\<close>, from the command on, for a token that
  is set.
\<close>

definition run_with_token ::
  "(string \<Rightarrow> string) \<Rightarrow> (string list list \<Rightarrow> string list \<Rightarrow> string) \<Rightarrow> ('n \<Rightarrow> string) \<Rightarrow>
   'n world \<Rightarrow> string \<Rightarrow> unit io" where
  "run_with_token strip table toString w token =
     (let CWD = process_cwd w @ sep w;
          RESULTS_FILE = path_join w CWD ''jest.results.json''
      in bind_io (pure_io (getJestCommand w RESULTS_FILE)) (\<lambda>cmd.
         bind_io (execJest cmd) (\<lambda>_.
         let octokit = getOctokit w token
         in bind_io (pure_io (parseResults w RESULTS_FILE)) (\<lambda>results.
            bind_io (let payload = getCheckPayload strip (github_context w) (core_getInput w) results CWD
                     in request (ChecksCreate payload) (checks_create octokit payload)) (\<lambda>_.
            bind_io (pure_io (shouldCommentCoverage w)) (\<lambda>cc.
            bind_io (if cc
                     then let comment = getCoverageTable table toString results CWD
                          in if truthy comment
                             then (case comment of
                                     JSFalse \<Rightarrow> pure_io (Inr ())
                                   | JSString c \<Rightarrow>
                                       bind_io (deletePreviousComments octokit (github_context w)) (\<lambda>_.
                                         let commentPayload = getCommentPayload (github_context w) c
                                         in request (CreateComment commentPayload)
                                              (issues_createComment octokit commentPayload)))
                             else pure_io (Inr ())
                     else pure_io (Inr ())) (\<lambda>_.
            if \<not> success results then ([SetFailed ''Some tests failed.''], Inr ())
            else pure_io (Inr ()))))))))"

text \<open>
  \<^verbatim>\<open>run\<close>: without a token nothing is executed or sent; an error thrown in the
  \<^verbatim>\<open>try\<close> block is reported with its message.
\<close>

definition run ::
  "(string \<Rightarrow> string) \<Rightarrow> (string list list \<Rightarrow> string list \<Rightarrow> string) \<Rightarrow> ('n \<Rightarrow> string) \<Rightarrow>
   'n world \<Rightarrow> effect list" where
  "run strip table toString w =
     (let token = (case process_env_GITHUB_TOKEN w of
                     None \<Rightarrow> core_getInput w ''GITHUB_TOKEN''
                   | Some t \<Rightarrow> t)
      in if token = []
         then [CoreError ''GITHUB_TOKEN not set.'', SetFailed ''GITHUB_TOKEN not set.'']
         else case run_with_token strip table toString w token of
                (tr, Inl e) \<Rightarrow> tr @ [SetFailed e]
              | (tr, Inr _) \<Rightarrow> tr)"

section \<open>The libraries at concrete inputs\<close>

text \<open>
  Modelled from the spec: the package \<^verbatim>\<open>strip-ansi\<close> is not under \<^verbatim>\<open>src/\<close>. The spec
  has it remove terminal colour codes; it is modelled as removing every sequence that
  consists of the escape character, an opening bracket, digits and semicolons, and a final
  \<^verbatim>\<open>m\<close>. An unfinished sequence is kept. The functions of the action take \<open>strip\<close> as an
  argument; this model is what the concrete evaluations pass.
\<close>

datatype strip_mode = Plain | Escape | Params

fun strip_from :: "strip_mode \<Rightarrow> string \<Rightarrow> string \<Rightarrow> string" where
  "strip_from Plain held [] = []"
| "strip_from Escape held [] = held"
| "strip_from Params held [] = held"
| "strip_from Plain held (c # cs) =
     (if c = CHR 0x1B then strip_from Escape [c] cs else c # strip_from Plain [] cs)"
| "strip_from Escape held (c # cs) =
     (if c = CHR ''['' then strip_from Params (held @ [c]) cs
      else if c = CHR 0x1B then held @ strip_from Escape [c] cs
      else held @ c # strip_from Plain [] cs)"
| "strip_from Params held (c # cs) =
     (if c = CHR ''m'' then strip_from Plain [] cs
      else if c \<in> set ''0123456789;'' then strip_from Params (held @ [c]) cs
      else if c = CHR 0x1B then held @ strip_from Escape [c] cs
      else held @ c # strip_from Plain [] cs)"

definition strip_ansi :: "string \<Rightarrow> string" where
  "strip_ansi str = strip_from Plain [] str"

text \<open>
  Modelled from the spec: the package \<^verbatim>\<open>markdown-table\<close> is not under \<^verbatim>\<open>src/\<close>. The spec
  (section 4.2) has a Markdown table with a header row, a left-aligned first column and
  right-aligned percentage columns; it is modelled as one line per row, cells between
  bars, with the alignment line after the first row. Padding of the cells is left out.
  \<open>getCoverageTable\<close> takes \<open>table\<close> as an argument; this model is what the concrete
  evaluations pass.
\<close>

definition table_line :: "string list \<Rightarrow> string" where
  "table_line cells = ''| '' @ array_join '' | '' cells @ '' |''"

definition align_cell :: "string \<Rightarrow> string" where
  "align_cell a = (if a = ''l'' then '':--'' else if a = ''r'' then ''--:''
                   else if a = ''c'' then '':-:'' else ''---'')"

definition markdown_table :: "string list list \<Rightarrow> string list \<Rightarrow> string" where
  "markdown_table rows align =
     (case rows of
        [] \<Rightarrow> []
      | header # others \<Rightarrow>
          array_join [CHR 0x0A]
            (table_line header # table_line (map align_cell align) # map table_line others))"

section \<open>The properties as the specification words them\<close>

text \<open>The failed assertions of a run with their files: file order, then assertion order.\<close>

definition failed_assertions :: "'n formattedTestResults \<Rightarrow> (testResult \<times> assertion) list" where
  "failed_assertions results =
     [(f, a). f \<leftarrow> testResults results, a \<leftarrow> assertionResults f, status a = ''failed'']"

text \<open>Stripping a prefix: a string that does not start with it is left as it is.\<close>

definition strip_prefix :: "string \<Rightarrow> string \<Rightarrow> string" where
  "strip_prefix p str = (if prefix p str then drop (length p) str else str)"

text \<open>Removing the first occurrence of a string, wherever it is.\<close>

fun remove_first :: "string \<Rightarrow> string \<Rightarrow> string" where
  "remove_first p [] = []"
| "remove_first p (c # cs) =
     (if prefix p (c # cs) then drop (length p) (c # cs) else c # remove_first p cs)"

text \<open>
  The annotation of one failed assertion; \<open>strip_path\<close> is what is done to the file path.
\<close>

definition annotation_of ::
  "(string \<Rightarrow> string) \<Rightarrow> (string \<Rightarrow> string) \<Rightarrow> testResult \<times> assertion \<Rightarrow> annotation" where
  "annotation_of strip strip_path fa =
     (case fa of (f, a) \<Rightarrow>
        \<lparr> path = strip_path (name f),
          start_line = (case location a of None \<Rightarrow> 0 | Some l \<Rightarrow> line l),
          end_line = (case location a of None \<Rightarrow> 0 | Some l \<Rightarrow> line l),
          annotation_level = ''failure'',
          annotation_title = concat (map (\<lambda>t. t @ '' > '') (ancestorTitles a)) @ title a,
          annotation_message =
            (case failureMessages a of
               None \<Rightarrow> []
             | Some ms \<Rightarrow> strip (array_join [CHR 0x0A, CHR 0x0A] ms)) \<rparr>)"

text \<open>The summary of a failed run with the failed suites over the total suites.\<close>

definition failure_summary :: "'n formattedTestResults \<Rightarrow> string" where
  "failure_summary results =
     ''Failed tests: '' @ string_of_int (numFailedTests results) @ ''/''
     @ string_of_int (numTotalTests results) @ ''. Failed suites: ''
     @ string_of_int (numFailedTestSuites results) @ ''/''
     @ string_of_int (numTotalTestSuites results) @ ''.''"

text \<open>The text of a failed run when every file result's message is kept.\<close>

definition output_text_of_all :: "(string \<Rightarrow> string) \<Rightarrow> 'n formattedTestResults \<Rightarrow> string" where
  "output_text_of_all strip results =
     ''```'' @ [CHR 0x0A]
     @ trimRight (array_join [CHR 0x0A] (map (\<lambda>r. strip (message r)) (testResults results)))
     @ [CHR 0x0A] @ ''```''"

text \<open>
  The entries of a created coverage map that have a summary, and the row of one of them.
\<close>

definition summarizable ::
  "(string \<times> 'n fileCoverage) list \<Rightarrow> (string \<times> 'n coverageSummaryData) list" where
  "summarizable m = [(f, s). (f, d) \<leftarrow> m, s \<leftarrow> (case toSummary d of None \<Rightarrow> [] | Some s \<Rightarrow> [s])]"

definition coverage_row ::
  "('n \<Rightarrow> string) \<Rightarrow> string \<Rightarrow> string \<times> 'n coverageSummaryData \<Rightarrow> string list" where
  "coverage_row toString cwd fs =
     (case fs of (f, s) \<Rightarrow>
        [replace f cwd [],
         toString (pct (statements s)) @ ''%'',
         toString (pct (branches s)) @ ''%'',
         toString (pct (functions s)) @ ''%'',
         toString (pct (lines s)) @ ''%''])"

text \<open>The requests of a run that touch the comments of the pull request.\<close>

fun deletions :: "effect list \<Rightarrow> deleteComment_params list" where
  "deletions [] = []"
| "deletions (DeleteComment d # es) = d # deletions es"
| "deletions (e # es) = deletions es"

fun is_comment_request :: "effect \<Rightarrow> bool" where
  "is_comment_request (ListComments p) = True"
| "is_comment_request (DeleteComment d) = True"
| "is_comment_request (CreateComment c) = True"
| "is_comment_request e = False"

section \<open>Sample inputs\<close>

text \<open>
  A run of three test files: two assertions of the first file, one of them failed, under
  nested titles and with coloured messages; a passing file without a message; a file
  whose failed assertion has neither a location nor failure messages.
\<close>

definition sample_results :: "bool \<Rightarrow> int coverageMapData option \<Rightarrow> int formattedTestResults" where
  "sample_results ok cov =
     \<lparr> success = ok, numTotalTests = 10, numPassedTests = 8, numFailedTests = 2,
       numTotalTestSuites = 3, numPassedTestSuites = 2, numFailedTestSuites = 1,
       testResults =
         [\<lparr> name = ''/work/src/auth.test.ts'',
            message = [CHR 0x1B] @ ''[31mlogin failed'' @ [CHR 0x1B] @ ''[0m'',
            assertionResults =
              [\<lparr> status = ''failed'', ancestorTitles = [''Auth'', ''login''], title = ''rejects'',
                 location = Some \<lparr> column = 3, line = 12 \<rparr>,
                 failureMessages =
                   Some [[CHR 0x1B] @ ''[31mexpected'' @ [CHR 0x1B] @ ''[39m'', ''received''] \<rparr>,
               \<lparr> status = ''passed'', ancestorTitles = [''Auth''], title = ''accepts'',
                 location = Some \<lparr> column = 3, line = 20 \<rparr>,
                 failureMessages = Some [] \<rparr>] \<rparr>,
          \<lparr> name = ''/work/src/ok.test.ts'', message = [],
            assertionResults =
              [\<lparr> status = ''passed'', ancestorTitles = [], title = ''works'',
                 location = None, failureMessages = None \<rparr>] \<rparr>,
          \<lparr> name = ''/work/src/db.test.ts'', message = ''db down  '',
            assertionResults =
              [\<lparr> status = ''failed'', ancestorTitles = [], title = ''connects'',
                 location = None, failureMessages = None \<rparr>] \<rparr>],
       coverageMap = cov \<rparr>"

text \<open>A failed run whose only test file lies outside the base directory \<^verbatim>\<open>/app/\<close>.\<close>

definition outside_results :: "int formattedTestResults" where
  "outside_results =
     \<lparr> success = False, numTotalTests = 1, numPassedTests = 0, numFailedTests = 1,
       numTotalTestSuites = 1, numPassedTestSuites = 0, numFailedTestSuites = 1,
       testResults =
         [\<lparr> name = ''/srv/app/t.test.js'', message = ''boom'',
            assertionResults =
              [\<lparr> status = ''failed'', ancestorTitles = [], title = ''t'',
                 location = Some \<lparr> column = 1, line = 7 \<rparr>,
                 failureMessages = Some [''boom''] \<rparr>] \<rparr>],
       coverageMap = None \<rparr>"

definition sample_summary :: "int \<Rightarrow> int \<Rightarrow> int \<Rightarrow> int \<Rightarrow> int coverageSummaryData" where
  "sample_summary s b f l =
     \<lparr> lines = \<lparr> pct = l \<rparr>, statements = \<lparr> pct = s \<rparr>,
       functions = \<lparr> pct = f \<rparr>, branches = \<lparr> pct = b \<rparr> \<rparr>"

definition sample_coverage :: "int coverageMapData" where
  "sample_coverage =
     [(''/work/src/auth.ts'', sample_summary 100 50 75 90),
      (''/work/src/db.ts'', sample_summary 0 100 20 5)]"

text \<open>
  Four comments of a pull request: only the first is by the automation identity and
  starts with the coverage header.
\<close>

definition sample_comments :: "comment list" where
  "sample_comments =
     [\<lparr> comment_id = 1, user = \<lparr> login = ''github-actions[bot]'' \<rparr>,
        body = COVERAGE_HEADER @ ''| Filename |'' \<rparr>,
      \<lparr> comment_id = 2, user = \<lparr> login = ''github-actions[bot]'' \<rparr>, body = ''Deployed.'' \<rparr>,
      \<lparr> comment_id = 3, user = \<lparr> login = ''alice'' \<rparr>, body = COVERAGE_HEADER @ ''mine'' \<rparr>,
      \<lparr> comment_id = 4, user = \<lparr> login = ''github-actions[bot]'' \<rparr>,
        body = ''Was: '' @ COVERAGE_HEADER \<rparr>]"

definition sample_octokit :: octokit where
  "sample_octokit =
     \<lparr> checks_create = (\<lambda>p. None),
       issues_listComments = (\<lambda>p. Inr sample_comments),
       issues_deleteComment = (\<lambda>p. None),
       issues_createComment = (\<lambda>p. None) \<rparr>"

definition sample_context :: "pull_request option \<Rightarrow> github_context" where
  "sample_context pr =
     \<lparr> repo_owner = ''octo'', repo_repo = ''demo'', context_sha = ''abc123'',
       payload_pull_request = pr \<rparr>"

definition sample_JSON_parse :: "string \<Rightarrow> string + json" where
  "sample_JSON_parse str =
     (if str = ''true'' then Inr (JBool True)
      else if str = ''false'' then Inr (JBool False)
      else Inl ''Unexpected token'')"

definition sample_getInput :: "string \<Rightarrow> string" where
  "sample_getInput k =
     (if k = ''coverage-comment'' then ''true''
      else if k = ''changes-only'' then ''false''
      else if k = ''test-command'' then ''npx jest {{args}}''
      else if k = ''command-name'' then ''jest''
      else [])"

text \<open>
  A world with a token and the coverage comment enabled, in which the test command leaves
  the given results behind.
\<close>

definition sample_world :: "int formattedTestResults \<Rightarrow> pull_request option \<Rightarrow> int world" where
  "sample_world r pr =
     \<lparr> process_cwd = ''/work'',
       sep = ''/'',
       path_join = (\<lambda>a b. a @ b),
       process_env_GITHUB_TOKEN = Some ''secret'',
       core_getInput = sample_getInput,
       JSON_parse = sample_JSON_parse,
       github_context = sample_context pr,
       results_document =
         (\<lambda>file. if file = ''/work/jest.results.json'' then Inr r else Inl ''ENOENT''),
       getOctokit = (\<lambda>token. sample_octokit) \<rparr>"

section \<open>Lemmas about the string functions\<close>

declare string_of_nat.simps [simp del]

lemma string_of_nat_digit: "n < 10 \<Longrightarrow> string_of_nat n = [digit n]"
  by (simp add: string_of_nat.simps)

lemma string_of_nat_step:
  "10 \<le> n \<Longrightarrow> string_of_nat n = string_of_nat (n div 10) @ [digit n]"
  by (subst string_of_nat.simps) simp

lemma array_join_Cons: "array_join s (x # xs) = x @ concat (map (\<lambda>y. s @ y) xs)"
  by (induction xs arbitrary: x) simp_all

lemma array_join_snoc: "array_join s (xs @ [x]) = concat (map (\<lambda>y. y @ s) xs) @ x"
  by (induction s xs rule: array_join.induct) simp_all

lemma split_first_remove:
  "(case split_first p str of None \<Rightarrow> str | Some (b, a) \<Rightarrow> b @ a) = remove_first p str"
  by (induction str) (auto split: option.splits)

lemma replace_empty: "replace str p [] = remove_first p str"
  by (simp add: replace_def split_first_remove [symmetric] split: option.splits)

lemma remove_first_prefix: "prefix p str \<Longrightarrow> remove_first p str = drop (length p) str"
  by (cases str) auto

lemma remove_first_strip_prefix: "prefix p str \<Longrightarrow> remove_first p str = strip_prefix p str"
  by (simp add: remove_first_prefix strip_prefix_def)

lemma trimRight_append:
  "\<exists>ws. str = trimRight str @ ws \<and> (\<forall>c \<in> set ws. isWhiteSpace c)"
proof -
  have "rev str = takeWhile isWhiteSpace (rev str) @ dropWhile isWhiteSpace (rev str)"
    by simp
  then have "str = rev (dropWhile isWhiteSpace (rev str)) @ rev (takeWhile isWhiteSpace (rev str))"
    by (metis rev_append rev_rev_ident)
  moreover have "\<forall>c \<in> set (rev (takeWhile isWhiteSpace (rev str))). isWhiteSpace c"
    by (auto dest: set_takeWhileD)
  ultimately show ?thesis unfolding trimRight_def by blast
qed

lemma trimRight_last: "trimRight str \<noteq> [] \<Longrightarrow> \<not> isWhiteSpace (last (trimRight str))"
  unfolding trimRight_def
  by (metis hd_dropWhile hd_rev rev_is_Nil_conv rev_rev_ident)

lemma COVERAGE_HEADER_nonempty: "COVERAGE_HEADER \<noteq> []"
  by (simp add: COVERAGE_HEADER_def)

section \<open>The summary of a failed run\<close>

text \<open>
  Claim C1: for a result with \<open>success = false\<close> the summary is
  \<^verbatim>\<open>Failed tests: <numFailedTests>/<numTotalTests>. Failed suites:
  <numFailedTestSuites>/<numTotalTestSuites>.\<close> The code puts \<open>numFailedTests\<close> where
  the failed suites belong: for a run with 2 of 10 tests and 1 of 3 suites failed, the
  summary of the check payload ends in \<^verbatim>\<open>2/3.\<close>, and the claimed summary in \<^verbatim>\<open>1/3.\<close>
\<close>

theorem summary_failed_suites_numerator:
  "output_summary (check_output
     (getCheckPayload strip_ansi (sample_context None) sample_getInput
        (sample_results False None) ''/work/''))
   = ''Failed tests: 2/10. Failed suites: 2/3.''
   \<and> failure_summary (sample_results False None) = ''Failed tests: 2/10. Failed suites: 1/3.''"
  by (simp add: getCheckPayload_def failure_summary_def sample_results_def
        string_of_int_def digit_def string_of_nat_digit string_of_nat_step)

text \<open>
  Claim C2: for the result with \<open>success = false\<close>, \<open>numFailedTests = 2\<close>,
  \<open>numTotalTests = 10\<close>, \<open>numFailedTestSuites = 1\<close> and \<open>numTotalTestSuites = 3\<close>, whatever
  its other fields, the summary of the check payload is exactly
  \<^verbatim>\<open>Failed tests: 2/10. Failed suites: 2/3.\<close>
\<close>

theorem summary_scenario_two:
  "output_summary (check_output (getCheckPayload strip ctx getInput
     \<lparr> success = False, numTotalTests = 10, numPassedTests = np, numFailedTests = 2,
       numTotalTestSuites = 3, numPassedTestSuites = nps, numFailedTestSuites = 1,
       testResults = trs, coverageMap = cm \<rparr> cwd))
   = ''Failed tests: 2/10. Failed suites: 2/3.''"
  by (simp add: getCheckPayload_def string_of_int_def digit_def string_of_nat_digit string_of_nat_step)

section \<open>A successful run\<close>

text \<open>
  Claim C5: for every result with \<open>success = true\<close>, \<open>getAnnotations\<close> returns the empty
  list and the text of the check payload's output is absent, whatever the test results
  hold.
\<close>

theorem success_no_annotations_no_text:
  "success results \<Longrightarrow>
   getAnnotations strip results cwd = [] \<and>
   output_text (check_output (getCheckPayload strip ctx getInput results cwd)) = None"
  by (simp add: getAnnotations_def getCheckPayload_def getOutputText_def)

text \<open>The sample run, which has failed assertions, marked as successful.\<close>

theorem success_no_annotations_no_text_witness:
  "success (sample_results True None) \<and>
   getAnnotations strip_ansi (sample_results True None) ''/work/'' = [] \<and>
   output_text (check_output
     (getCheckPayload strip_ansi (sample_context None) sample_getInput
        (sample_results True None) ''/work/'')) = None"
  using success_no_annotations_no_text
    [where results = "sample_results True None" and strip = strip_ansi and cwd = "''/work/''"
       and ctx = "sample_context None" and getInput = sample_getInput]
  by (simp add: sample_results_def)

section \<open>The annotations of a failed run\<close>

lemma map_filter_pairs:
  "map (\<lambda>(f, a). g f a) (concat (map (\<lambda>a. if P a then [(f, a)] else []) xs))
   = map (g f) (filter P xs)"
  by (induction xs) simp_all

lemma flatMap_pairs:
  "flatMap fs (\<lambda>f. map (g f) (filter P (sel f)))
   = map (\<lambda>(f, a). g f a)
       (concat (map (\<lambda>f. concat (map (\<lambda>a. if P a then [(f, a)] else []) (sel f))) fs))"
  unfolding flatMap_def
  by (induction fs) (simp_all add: map_filter_pairs)

lemma getAnnotations_failed:
  "\<not> success r \<Longrightarrow>
   getAnnotations strip r cwd
   = map (\<lambda>(f, a).
            \<lparr> path = replace (name f) cwd [],
              start_line = (case location a of None \<Rightarrow> 0 | Some l \<Rightarrow> line l),
              end_line = (case location a of None \<Rightarrow> 0 | Some l \<Rightarrow> line l),
              annotation_level = ''failure'',
              annotation_title = array_join '' > '' (ancestorTitles a @ [title a]),
              annotation_message =
                strip (case failureMessages a of
                         None \<Rightarrow> []
                       | Some ms \<Rightarrow> array_join [CHR 0x0A, CHR 0x0A] ms) \<rparr>)
       (failed_assertions r)"
  unfolding getAnnotations_def failed_assertions_def
  by (simp add: flatMap_pairs)

lemma annotation_of_remove_first:
  assumes "strip [] = []"
  shows "annotation_of strip (remove_first cwd)
         = (\<lambda>(f, a).
              \<lparr> path = replace (name f) cwd [],
                start_line = (case location a of None \<Rightarrow> 0 | Some l \<Rightarrow> line l),
                end_line = (case location a of None \<Rightarrow> 0 | Some l \<Rightarrow> line l),
                annotation_level = ''failure'',
                annotation_title = array_join '' > '' (ancestorTitles a @ [title a]),
                annotation_message =
                  strip (case failureMessages a of
                           None \<Rightarrow> []
                         | Some ms \<Rightarrow> array_join [CHR 0x0A, CHR 0x0A] ms) \<rparr>)"
  using assms
  by (auto simp: fun_eq_iff annotation_of_def replace_empty array_join_snoc split: option.splits)

text \<open>
  Claim C4, amended in the path only: for every result with \<open>success = false\<close>, and a
  \<open>strip\<close> that leaves the empty string empty, \<open>getAnnotations\<close> returns exactly one
  annotation per assertion with status \<^verbatim>\<open>failed\<close>, in file-result order and then
  assertion order. Each annotation has the file path with the first occurrence of the base
  directory removed as its path, which is the path without its base-directory prefix
  whenever every file path starts with the base directory; the assertion's line, or 0
  without a location, as start and end line; the ancestor titles and the title joined by
  \<^verbatim>\<open> > \<close> as title; and the stripped failure messages joined by a blank line, or the
  empty string when none are recorded, as message.
\<close>

theorem annotations_of_failed_assertions:
  assumes "\<not> success r" and "strip [] = []"
  shows "getAnnotations strip r cwd
         = map (annotation_of strip (remove_first cwd)) (failed_assertions r)
       \<and> length (getAnnotations strip r cwd) = length (failed_assertions r)
       \<and> ((\<forall>f \<in> set (testResults r). prefix cwd (name f)) \<longrightarrow>
            getAnnotations strip r cwd
            = map (annotation_of strip (strip_prefix cwd)) (failed_assertions r))"
proof -
  have eq: "getAnnotations strip r cwd
            = map (annotation_of strip (remove_first cwd)) (failed_assertions r)"
    using assms by (simp add: getAnnotations_failed annotation_of_remove_first)
  have files: "fst fa \<in> set (testResults r)" if "fa \<in> set (failed_assertions r)" for fa
    using that by (auto simp: failed_assertions_def)
  have "map (annotation_of strip (remove_first cwd)) (failed_assertions r)
        = map (annotation_of strip (strip_prefix cwd)) (failed_assertions r)"
    if "\<forall>f \<in> set (testResults r). prefix cwd (name f)"
    using that files by (auto simp: annotation_of_def remove_first_strip_prefix)
  with eq show ?thesis by simp
qed

text \<open>
  The sample run under \<^verbatim>\<open>/work/\<close>: two annotations, of the failed assertions of the
  first and of the third file.
\<close>

theorem annotations_of_failed_assertions_witness:
  "\<not> success (sample_results False None) \<and> strip_ansi [] = [] \<and>
   getAnnotations strip_ansi (sample_results False None) ''/work/''
   = [\<lparr> path = ''src/auth.test.ts'', start_line = 12, end_line = 12,
        annotation_level = ''failure'', annotation_title = ''Auth > login > rejects'',
        annotation_message = ''expected'' @ [CHR 0x0A, CHR 0x0A] @ ''received'' \<rparr>,
      \<lparr> path = ''src/db.test.ts'', start_line = 0, end_line = 0,
        annotation_level = ''failure'', annotation_title = ''connects'',
        annotation_message = [] \<rparr>]"
  using annotations_of_failed_assertions
    [where r = "sample_results False None" and strip = strip_ansi and cwd = "''/work/''"]
  by (simp add: sample_results_def failed_assertions_def annotation_of_def strip_ansi_def)

text \<open>
  The claim as worded, with the base-directory prefix stripped, fails for a test file
  outside the base directory whose path contains it further in: with the base directory
  \<^verbatim>\<open>/app/\<close> the file \<^verbatim>\<open>/srv/app/t.test.js\<close> is annotated under the path
  \<^verbatim>\<open>/srvt.test.js\<close>, while the path has no such prefix to strip.
\<close>

theorem annotation_path_inner_occurrence:
  "map path (getAnnotations strip_ansi outside_results ''/app/'') = [''/srvt.test.js'']
   \<and> map (\<lambda>fa. strip_prefix ''/app/'' (name (fst fa))) (failed_assertions outside_results)
       = [''/srv/app/t.test.js'']
   \<and> getAnnotations strip_ansi outside_results ''/app/''
       \<noteq> map (annotation_of strip_ansi (strip_prefix ''/app/'')) (failed_assertions outside_results)"
  by (simp add: getAnnotations_def flatMap_def failed_assertions_def annotation_of_def
        strip_prefix_def outside_results_def replace_def strip_ansi_def)

section \<open>The text of a failed run\<close>

text \<open>
  Claim C7, amended: for every result with \<open>success = false\<close>, the text of the check
  payload's output is a fenced code block that holds the stripped messages of the file
  results, those that are empty after stripping left out, joined by line feeds, with
  trailing white space trimmed.
\<close>

theorem output_text_nonempty_messages:
  assumes "\<not> success r"
  shows "getOutputText strip r
         = Some (''```'' @ [CHR 0x0A]
             @ trimRight (array_join [CHR 0x0A]
                 (filter (\<lambda>s. s \<noteq> []) (map (\<lambda>f. strip (message f)) (testResults r))))
             @ [CHR 0x0A] @ ''```'')
       \<and> output_text (check_output (getCheckPayload strip ctx getInput r cwd))
         = getOutputText strip r"
  using assms by (simp add: getOutputText_def asMarkdownCode_def getCheckPayload_def)

text \<open>
  The sample run: the coloured message of the first file and the message of the third,
  whose trailing spaces go; the second file has no message.
\<close>

theorem output_text_nonempty_messages_witness:
  "\<not> success (sample_results False None) \<and>
   getOutputText strip_ansi (sample_results False None)
   = Some (''```'' @ [CHR 0x0A] @ ''login failed'' @ [CHR 0x0A] @ ''db down'' @ [CHR 0x0A] @ ''```'')"
  using output_text_nonempty_messages
    [where r = "sample_results False None" and strip = strip_ansi]
  by (simp add: sample_results_def strip_ansi_def trimRight_def isWhiteSpace_def)

text \<open>
  With every file result's message kept, the empty message of the second file would leave
  an empty line between the two others; the code's text has none.
\<close>

theorem output_text_drops_empty_message:
  "getOutputText strip_ansi (sample_results False None)
   = Some (''```'' @ [CHR 0x0A] @ ''login failed'' @ [CHR 0x0A] @ ''db down'' @ [CHR 0x0A] @ ''```'')
   \<and> output_text_of_all strip_ansi (sample_results False None)
     = ''```'' @ [CHR 0x0A] @ ''login failed'' @ [CHR 0x0A, CHR 0x0A] @ ''db down'' @ [CHR 0x0A] @ ''```''
   \<and> getOutputText strip_ansi (sample_results False None)
     \<noteq> Some (output_text_of_all strip_ansi (sample_results False None))"
  by (simp add: getOutputText_def asMarkdownCode_def output_text_of_all_def
        sample_results_def strip_ansi_def trimRight_def isWhiteSpace_def)

section \<open>The coverage table\<close>

lemma push_rows_summarizable:
  "push_rows toString cwd m rows = rows @ map (coverage_row toString cwd) (summarizable m)"
  by (induction m arbitrary: rows)
     (auto simp: summarizable_def coverage_row_def split: option.splits)

lemma summarizable_createCoverageMap: "summarizable (data (createCoverageMap m)) = m"
  by (induction m) (auto simp: summarizable_def createCoverageMap_def)

lemma createCoverageMap_empty: "data (createCoverageMap m) = [] \<longleftrightarrow> m = []"
  by (simp add: createCoverageMap_def)

text \<open>
  Claim C3, amended: for a result whose coverage map is the empty map, \<open>getCoverageTable\<close>
  returns \<open>false\<close> and not the empty string; \<open>false\<close> is returned for the empty map and
  for no other result, and the empty string, the result of case (a), for an absent
  coverage map and for no other result. The two results differ. Nothing is said of a map
  whose entries all lack a summary: no created coverage map has such an entry.
\<close>

theorem coverage_table_degenerate:
  "(coverageMap r = Some [] \<longrightarrow>
      getCoverageTable table toString r cwd = JSFalse
      \<and> getCoverageTable table toString r cwd \<noteq> JSString [])
   \<and> (getCoverageTable table toString r cwd = JSFalse \<longleftrightarrow> coverageMap r = Some [])
   \<and> (getCoverageTable table toString r cwd = JSString [] \<longleftrightarrow> coverageMap r = None)"
  by (auto simp: getCoverageTable_def createCoverageMap_empty Let_def
        COVERAGE_HEADER_nonempty split: option.splits)

text \<open>
  The sample run with the empty coverage map, without a coverage map and with the sample
  coverage map: \<open>false\<close>, the empty string, and neither of the two.
\<close>

theorem coverage_table_degenerate_witness:
  "getCoverageTable markdown_table string_of_int (sample_results True (Some [])) ''/work/''
   = JSFalse
   \<and> getCoverageTable markdown_table string_of_int (sample_results True None) ''/work/''
     = JSString []
   \<and> getCoverageTable markdown_table string_of_int
       (sample_results True (Some sample_coverage)) ''/work/'' \<noteq> JSFalse
   \<and> getCoverageTable markdown_table string_of_int
       (sample_results True (Some sample_coverage)) ''/work/'' \<noteq> JSString []"
  using coverage_table_degenerate
      [where r = "sample_results True (Some [])" and table = markdown_table
         and toString = string_of_int and cwd = "''/work/''"]
    coverage_table_degenerate
      [where r = "sample_results True None" and table = markdown_table
         and toString = string_of_int and cwd = "''/work/''"]
    coverage_table_degenerate
      [where r = "sample_results True (Some sample_coverage)" and table = markdown_table
         and toString = string_of_int and cwd = "''/work/''"]
  by (simp add: sample_results_def sample_coverage_def)

text \<open>
  The claim as worded fails for the empty coverage map: the result is not the empty
  string of case (a), but \<open>false\<close>.
\<close>

theorem coverage_table_empty_map_false:
  "coverageMap (sample_results True (Some [])) = Some []
   \<and> getCoverageTable markdown_table string_of_int (sample_results True (Some [])) ''/work/''
     = JSFalse
   \<and> getCoverageTable markdown_table string_of_int (sample_results True (Some [])) ''/work/''
     \<noteq> JSString []"
  by (simp add: getCoverageTable_def createCoverageMap_def sample_results_def)

text \<open>
  Claim C6, amended: for every result whose coverage map has at least one entry, and \<open>N\<close>
  of the entries of the created map with a summary, \<open>getCoverageTable\<close> returns the
  string that consists of the header \<^verbatim>\<open>:loop: **Code coverage**\<close> with its two line feeds
  and the table of \<open>N + 1\<close> rows, the header row and one row per entry with a summary in
  the order of the map, in which every percentage cell is the percentage of the metric
  followed by \<^verbatim>\<open>%\<close>.
\<close>

theorem coverage_table_rows:
  assumes "coverageMap r = Some m" and "m \<noteq> []"
  shows "getCoverageTable table toString r cwd
         = JSString (COVERAGE_HEADER
             @ table ([''Filename'', ''Statements'', ''Branches'', ''Functions'', ''Lines'']
                      # map (coverage_row toString cwd)
                          (summarizable (data (createCoverageMap m))))
                 [''l'', ''r'', ''r'', ''r'', ''r''])
       \<and> COVERAGE_HEADER = '':loop: **Code coverage**'' @ [CHR 0x0A, CHR 0x0A]
       \<and> length ([''Filename'', ''Statements'', ''Branches'', ''Functions'', ''Lines'']
                  # map (coverage_row toString cwd)
                      (summarizable (data (createCoverageMap m))))
         = length (summarizable (data (createCoverageMap m))) + 1
       \<and> (\<forall>(f, s) \<in> set (summarizable (data (createCoverageMap m))).
             tl (coverage_row toString cwd (f, s))
             = map (\<lambda>metric. toString (pct (metric s)) @ ''%'')
                 [statements, branches, functions, lines])"
proof -
  from assms have "data (createCoverageMap m) \<noteq> []"
    by (simp add: createCoverageMap_empty)
  with assms(1) have "getCoverageTable table toString r cwd
         = JSString (COVERAGE_HEADER
             @ table ([''Filename'', ''Statements'', ''Branches'', ''Functions'', ''Lines'']
                      # map (coverage_row toString cwd)
                          (summarizable (data (createCoverageMap m))))
                 [''l'', ''r'', ''r'', ''r'', ''r''])"
    by (simp add: getCoverageTable_def Let_def push_rows_summarizable)
  then show ?thesis
    by (auto simp: coverage_row_def COVERAGE_HEADER_def)
qed

text \<open>The sample coverage map: two entries, both with a summary, and a table of three rows.\<close>

theorem coverage_table_rows_witness:
  "coverageMap (sample_results True (Some sample_coverage)) = Some sample_coverage
   \<and> sample_coverage \<noteq> []
   \<and> length (summarizable (data (createCoverageMap sample_coverage))) = 2
   \<and> getCoverageTable markdown_table string_of_int
       (sample_results True (Some sample_coverage)) ''/work/''
     = JSString ('':loop: **Code coverage**'' @ [CHR 0x0A, CHR 0x0A]
         @ ''| Filename | Statements | Branches | Functions | Lines |'' @ [CHR 0x0A]
         @ ''| :-- | --: | --: | --: | --: |'' @ [CHR 0x0A]
         @ ''| src/auth.ts | 100% | 50% | 75% | 90% |'' @ [CHR 0x0A]
         @ ''| src/db.ts | 0% | 100% | 20% | 5% |'')"
  using coverage_table_rows
    [where r = "sample_results True (Some sample_coverage)" and m = sample_coverage
       and table = markdown_table and toString = string_of_int and cwd = "''/work/''"]
  by (simp add: sample_results_def sample_coverage_def sample_summary_def summarizable_def
        createCoverageMap_def coverage_row_def replace_def
        COVERAGE_HEADER_def markdown_table_def table_line_def align_cell_def
        string_of_int_def digit_def string_of_nat_digit string_of_nat_step)

text \<open>
  The claim as worded covers the empty coverage map, which has exactly 0 entries with a
  summary: there the result is not a string with a table of one row, but \<open>false\<close>.
\<close>

theorem coverage_table_no_entries:
  "length (summarizable (data (createCoverageMap ([] :: int coverageMapData)))) = 0
   \<and> getCoverageTable markdown_table string_of_int (sample_results False (Some [])) ''/work/''
     = JSFalse
   \<and> getCoverageTable markdown_table string_of_int (sample_results False (Some [])) ''/work/''
     \<noteq> JSString (COVERAGE_HEADER
           @ markdown_table [[''Filename'', ''Statements'', ''Branches'', ''Functions'', ''Lines'']]
               [''l'', ''r'', ''r'', ''r'', ''r''])"
  by (simp add: getCoverageTable_def createCoverageMap_def sample_results_def summarizable_def)

section \<open>The comments of the pull request\<close>

lemma deletions_map: "deletions (map (DeleteComment \<circ> f) xs) = map f xs"
  by (induction xs) simp_all

lemma deletePreviousComments_effects:
  "fst (deletePreviousComments octokit ctx)
   = ListComments \<lparr> lc_owner = repo_owner ctx, lc_repo = repo_repo ctx,
                    lc_per_page = 100, lc_issue_number = getPullId ctx \<rparr>
     # (case issues_listComments octokit
               \<lparr> lc_owner = repo_owner ctx, lc_repo = repo_repo ctx,
                 lc_per_page = 100, lc_issue_number = getPullId ctx \<rparr> of
          Inl e \<Rightarrow> []
        | Inr cs \<Rightarrow>
            map (\<lambda>c. DeleteComment \<lparr> dc_owner = repo_owner ctx, dc_repo = repo_repo ctx,
                                     dc_comment_id = comment_id c \<rparr>)
              (filter (\<lambda>c. login (user c) = ''github-actions[bot]''
                           \<and> prefix COVERAGE_HEADER (body c)) cs))"
  by (simp add: deletePreviousComments_def Let_def comp_def split: sum.splits)

text \<open>
  Claim C8: of the comments that the listing returns, the reconciler requests the deletion
  of those whose author is the automation identity and whose body starts with the coverage
  header, once each and in their order; the identifiers of the listed comments being
  distinct, a deletion is requested for a listed comment if and only if it has both
  properties, so that a comment missing either is never deleted.
\<close>

theorem deletions_own_comments:
  assumes "issues_listComments octokit
             \<lparr> lc_owner = repo_owner ctx, lc_repo = repo_repo ctx,
               lc_per_page = 100, lc_issue_number = getPullId ctx \<rparr> = Inr cs"
  shows "deletions (fst (deletePreviousComments octokit ctx))
         = map (\<lambda>c. \<lparr> dc_owner = repo_owner ctx, dc_repo = repo_repo ctx,
                       dc_comment_id = comment_id c \<rparr>)
             (filter (\<lambda>c. login (user c) = ''github-actions[bot]''
                          \<and> prefix COVERAGE_HEADER (body c)) cs)
       \<and> (distinct (map comment_id cs) \<longrightarrow>
            (\<forall>c \<in> set cs.
               \<lparr> dc_owner = repo_owner ctx, dc_repo = repo_repo ctx,
                 dc_comment_id = comment_id c \<rparr>
                 \<in> set (deletions (fst (deletePreviousComments octokit ctx)))
               \<longleftrightarrow> login (user c) = ''github-actions[bot]''
                   \<and> prefix COVERAGE_HEADER (body c)))"
proof -
  let ?own = "\<lambda>c. login (user c) = ''github-actions[bot]'' \<and> prefix COVERAGE_HEADER (body c)"
  let ?del = "\<lambda>c. \<lparr> dc_owner = repo_owner ctx, dc_repo = repo_repo ctx,
                       dc_comment_id = comment_id c \<rparr>"
  have ds: "deletions (fst (deletePreviousComments octokit ctx)) = map ?del (filter ?own cs)"
    using assms by (simp add: deletePreviousComments_def Let_def deletions_map)
  have "?del c \<in> set (map ?del (filter ?own cs)) \<longleftrightarrow> ?own c"
    if d: "distinct (map comment_id cs)" and c: "c \<in> set cs" for c
  proof
    assume "?del c \<in> set (map ?del (filter ?own cs))"
    then obtain c' where c': "c' \<in> set cs" "?own c'" "comment_id c' = comment_id c"
      by auto
    from d have "inj_on comment_id (set cs)"
      by (simp add: distinct_map)
    with c c' have "c' = c"
      by (auto dest: inj_onD)
    with c' show "?own c" by simp
  next
    assume "?own c"
    with c show "?del c \<in> set (map ?del (filter ?own cs))" by auto
  qed
  with ds show ?thesis by simp
qed

text \<open>
  The four sample comments: the only deletion is that of comment 1; comment 2 lacks the
  header, comment 3 the author, and comment 4 has the header after other text.
\<close>

theorem deletions_own_comments_witness:
  "issues_listComments sample_octokit
     \<lparr> lc_owner = repo_owner (sample_context None), lc_repo = repo_repo (sample_context None),
       lc_per_page = 100, lc_issue_number = getPullId (sample_context None) \<rparr>
   = Inr sample_comments
   \<and> distinct (map comment_id sample_comments)
   \<and> deletions (fst (deletePreviousComments sample_octokit (sample_context None)))
     = [\<lparr> dc_owner = ''octo'', dc_repo = ''demo'', dc_comment_id = 1 \<rparr>]"
  using deletions_own_comments
    [where octokit = sample_octokit and ctx = "sample_context None" and cs = sample_comments]
  by (simp add: sample_octokit_def sample_comments_def sample_context_def COVERAGE_HEADER_def)

section \<open>The run\<close>

text \<open>
  Claim C9: when the results of the run are read and \<open>getCoverageTable\<close> returns \<open>false\<close>
  or the empty string for them, the run sends no request that lists, deletes or creates a
  comment, whether or not the coverage comment is enabled: the comments of the pull
  request stay as they are.
\<close>

theorem falsy_coverage_no_comment_requests:
  assumes "results_document w (path_join w (process_cwd w @ sep w) ''jest.results.json'') = Inr r"
      and "\<not> truthy (getCoverageTable table toString r (process_cwd w @ sep w))"
  shows "\<forall>e \<in> set (run strip table toString w). \<not> is_comment_request e"
  using assms
  by (auto simp: run_def run_with_token_def bind_io_def pure_io_def request_def execJest_def
        parseResults_def Let_def
        split: sum.splits option.splits prod.splits if_splits)

text \<open>
  The sample world with the coverage comment enabled, a pull request with comments of the
  automation identity, and an empty coverage map: the run executes the command and creates
  the check, and that is all.
\<close>

theorem falsy_coverage_no_comment_requests_witness:
  "results_document
     (sample_world (sample_results True (Some []))
        (Some \<lparr> pr_number = 17, pr_head_sha = ''fff'', pr_base_ref = ''main'' \<rparr>))
     ''/work/jest.results.json''
   = Inr (sample_results True (Some []))
   \<and> \<not> truthy (getCoverageTable markdown_table string_of_int
                  (sample_results True (Some [])) ''/work/'')
   \<and> shouldCommentCoverage
       (sample_world (sample_results True (Some []))
          (Some \<lparr> pr_number = 17, pr_head_sha = ''fff'', pr_base_ref = ''main'' \<rparr>))
     = Inr True
   \<and> filter is_comment_request
       (run strip_ansi markdown_table string_of_int
          (sample_world (sample_results True (Some []))
             (Some \<lparr> pr_number = 17, pr_head_sha = ''fff'', pr_base_ref = ''main'' \<rparr>)))
     = []"
  using falsy_coverage_no_comment_requests
    [where w = "sample_world (sample_results True (Some []))
                  (Some \<lparr> pr_number = 17, pr_head_sha = ''fff'', pr_base_ref = ''main'' \<rparr>)"
       and r = "sample_results True (Some [])" and table = markdown_table
       and toString = string_of_int and strip = strip_ansi]
  by (simp add: sample_world_def sample_getInput_def sample_JSON_parse_def
        shouldCommentCoverage_def getCoverageTable_def createCoverageMap_def
        sample_results_def filter_empty_conv)

lemma run_comment_step:
  assumes token: "(case process_env_GITHUB_TOKEN w of
                     None \<Rightarrow> core_getInput w ''GITHUB_TOKEN''
                   | Some t \<Rightarrow> t) = token" "token \<noteq> []"
      and cmd: "getJestCommand w (path_join w (process_cwd w @ sep w) ''jest.results.json'')
                = Inr cmd"
      and res: "results_document w (path_join w (process_cwd w @ sep w) ''jest.results.json'')
                = Inr r"
      and chk: "checks_create (getOctokit w token)
                  (getCheckPayload strip (github_context w) (core_getInput w) r
                     (process_cwd w @ sep w)) = None"
      and cc: "shouldCommentCoverage w = Inr True"
      and tab: "getCoverageTable table toString r (process_cwd w @ sep w) = JSString c" "c \<noteq> []"
  shows "\<exists>es. run strip table toString w
           = [Exec cmd,
              ChecksCreate (getCheckPayload strip (github_context w) (core_getInput w) r
                              (process_cwd w @ sep w))]
             @ fst (deletePreviousComments (getOctokit w token) (github_context w)) @ es
           \<and> (snd (deletePreviousComments (getOctokit w token) (github_context w)) = Inr ()
                \<longrightarrow> es \<noteq> [] \<and> hd es = CreateComment (getCommentPayload (github_context w) c))"
  using assms
  by (auto simp: run_def run_with_token_def bind_io_def pure_io_def request_def execJest_def
        parseResults_def Let_def
        split: sum.splits option.splits prod.splits if_splits)

text \<open>
  Claim C10: when the event payload holds no pull request, \<open>getPullId\<close> returns 0, and
  the listing request and the payload of the new comment have the issue number 0. The run
  does not fail or skip the comment step for it: with a token, a command, results, a
  created check, the coverage comment enabled and a non-empty table, the run sends the
  listing request for issue 0, and, the listing and the deletions having succeeded, the
  request that creates the comment on issue 0.
\<close>

theorem no_pull_request_issue_zero:
  assumes "payload_pull_request (github_context w) = None"
  shows "getPullId (github_context w) = 0
       \<and> cc_issue_number (getCommentPayload (github_context w) c) = 0
       \<and> take 1 (fst (deletePreviousComments octokit (github_context w)))
         = [ListComments \<lparr> lc_owner = repo_owner (github_context w),
                           lc_repo = repo_repo (github_context w),
                           lc_per_page = 100, lc_issue_number = 0 \<rparr>]
       \<and> ((case process_env_GITHUB_TOKEN w of
              None \<Rightarrow> core_getInput w ''GITHUB_TOKEN''
            | Some t \<Rightarrow> t) = token
          \<and> token \<noteq> []
          \<and> getJestCommand w (path_join w (process_cwd w @ sep w) ''jest.results.json'')
            = Inr cmd
          \<and> results_document w (path_join w (process_cwd w @ sep w) ''jest.results.json'')
            = Inr r
          \<and> checks_create (getOctokit w token)
              (getCheckPayload strip (github_context w) (core_getInput w) r
                 (process_cwd w @ sep w)) = None
          \<and> shouldCommentCoverage w = Inr True
          \<and> getCoverageTable table toString r (process_cwd w @ sep w) = JSString c
          \<and> c \<noteq> []
          \<longrightarrow> ListComments \<lparr> lc_owner = repo_owner (github_context w),
                             lc_repo = repo_repo (github_context w),
                             lc_per_page = 100, lc_issue_number = 0 \<rparr>
                \<in> set (run strip table toString w)
              \<and> (snd (deletePreviousComments (getOctokit w token) (github_context w)) = Inr ()
                   \<longrightarrow> CreateComment \<lparr> cc_owner = repo_owner (github_context w),
                                        cc_repo = repo_repo (github_context w),
                                        cc_body = c, cc_issue_number = 0 \<rparr>
                         \<in> set (run strip table toString w)))"
proof -
  have pull: "getPullId (github_context w) = 0"
    using assms by (simp add: getPullId_def)
  have list: "take 1 (fst (deletePreviousComments oct (github_context w)))
              = [ListComments \<lparr> lc_owner = repo_owner (github_context w),
                                lc_repo = repo_repo (github_context w),
                                lc_per_page = 100, lc_issue_number = 0 \<rparr>]" for oct
    by (simp add: deletePreviousComments_effects pull)
  have payload: "getCommentPayload (github_context w) c
                 = \<lparr> cc_owner = repo_owner (github_context w),
                     cc_repo = repo_repo (github_context w),
                     cc_body = c, cc_issue_number = 0 \<rparr>"
    by (simp add: getCommentPayload_def pull)
  have step: "ListComments \<lparr> lc_owner = repo_owner (github_context w),
                             lc_repo = repo_repo (github_context w),
                             lc_per_page = 100, lc_issue_number = 0 \<rparr>
                \<in> set (run strip table toString w)
              \<and> (snd (deletePreviousComments (getOctokit w token) (github_context w)) = Inr ()
                   \<longrightarrow> CreateComment \<lparr> cc_owner = repo_owner (github_context w),
                                        cc_repo = repo_repo (github_context w),
                                        cc_body = c, cc_issue_number = 0 \<rparr>
                         \<in> set (run strip table toString w))"
    if "(case process_env_GITHUB_TOKEN w of
           None \<Rightarrow> core_getInput w ''GITHUB_TOKEN''
         | Some t \<Rightarrow> t) = token"
      and "token \<noteq> []"
      and "getJestCommand w (path_join w (process_cwd w @ sep w) ''jest.results.json'') = Inr cmd"
      and "results_document w (path_join w (process_cwd w @ sep w) ''jest.results.json'') = Inr r"
      and "checks_create (getOctokit w token)
             (getCheckPayload strip (github_context w) (core_getInput w) r
                (process_cwd w @ sep w)) = None"
      and "shouldCommentCoverage w = Inr True"
      and "getCoverageTable table toString r (process_cwd w @ sep w) = JSString c"
      and "c \<noteq> []"
  proof -
    from run_comment_step [where strip = strip, OF that]
    obtain es where run: "run strip table toString w
           = [Exec cmd,
              ChecksCreate (getCheckPayload strip (github_context w) (core_getInput w) r
                              (process_cwd w @ sep w))]
             @ fst (deletePreviousComments (getOctokit w token) (github_context w)) @ es"
      and es: "snd (deletePreviousComments (getOctokit w token) (github_context w)) = Inr ()
               \<Longrightarrow> es \<noteq> [] \<and> hd es = CreateComment (getCommentPayload (github_context w) c)"
      by blast
    have "ListComments \<lparr> lc_owner = repo_owner (github_context w),
                         lc_repo = repo_repo (github_context w),
                         lc_per_page = 100, lc_issue_number = 0 \<rparr>
          \<in> set (run strip table toString w)"
      by (simp add: run deletePreviousComments_effects pull)
    moreover have "CreateComment \<lparr> cc_owner = repo_owner (github_context w),
                                   cc_repo = repo_repo (github_context w),
                                   cc_body = c, cc_issue_number = 0 \<rparr>
                   \<in> set (run strip table toString w)"
      if "snd (deletePreviousComments (getOctokit w token) (github_context w)) = Inr ()"
    proof -
      from es [OF that] have "es \<noteq> []"
        and "hd es = CreateComment (getCommentPayload (github_context w) c)"
        by simp_all
      then have "CreateComment (getCommentPayload (github_context w) c) \<in> set es"
        by (metis hd_in_set)
      then show ?thesis
        by (simp add: run payload)
    qed
    ultimately show ?thesis by blast
  qed
  from pull list payload step show ?thesis
    by simp
qed

text \<open>
  The sample world without a pull request and with the sample coverage: the run lists the
  comments of issue 0 and creates the coverage comment on issue 0.
\<close>

theorem no_pull_request_issue_zero_witness:
  "payload_pull_request
     (github_context (sample_world (sample_results True (Some sample_coverage)) None)) = None
   \<and> shouldCommentCoverage (sample_world (sample_results True (Some sample_coverage)) None)
     = Inr True
   \<and> getPullId (github_context (sample_world (sample_results True (Some sample_coverage)) None))
     = 0
   \<and> ListComments \<lparr> lc_owner = ''octo'', lc_repo = ''demo'', lc_per_page = 100,
                     lc_issue_number = 0 \<rparr>
     \<in> set (run strip_ansi markdown_table string_of_int
              (sample_world (sample_results True (Some sample_coverage)) None))
   \<and> CreateComment
       \<lparr> cc_owner = ''octo'', cc_repo = ''demo'',
         cc_body = '':loop: **Code coverage**'' @ [CHR 0x0A, CHR 0x0A]
           @ ''| Filename | Statements | Branches | Functions | Lines |'' @ [CHR 0x0A]
           @ ''| :-- | --: | --: | --: | --: |'' @ [CHR 0x0A]
           @ ''| src/auth.ts | 100% | 50% | 75% | 90% |'' @ [CHR 0x0A]
           @ ''| src/db.ts | 0% | 100% | 20% | 5% |'',
         cc_issue_number = 0 \<rparr>
     \<in> set (run strip_ansi markdown_table string_of_int
              (sample_world (sample_results True (Some sample_coverage)) None))"
  using no_pull_request_issue_zero
    [where w = "sample_world (sample_results True (Some sample_coverage)) None"
       and token = "''secret''"
       and cmd = "''npx jest --testLocationInResults --json --outputFile='' @ [CHR 0x22]
                  @ ''/work/jest.results.json'' @ [CHR 0x22] @ '' --coverage''"
       and r = "sample_results True (Some sample_coverage)"
       and strip = strip_ansi and table = markdown_table and toString = string_of_int
       and octokit = sample_octokit
       and c = "'':loop: **Code coverage**'' @ [CHR 0x0A, CHR 0x0A]
           @ ''| Filename | Statements | Branches | Functions | Lines |'' @ [CHR 0x0A]
           @ ''| :-- | --: | --: | --: | --: |'' @ [CHR 0x0A]
           @ ''| src/auth.ts | 100% | 50% | 75% | 90% |'' @ [CHR 0x0A]
           @ ''| src/db.ts | 0% | 100% | 20% | 5% |''"]
  by (simp add: sample_world_def sample_getInput_def sample_JSON_parse_def sample_context_def
        sample_octokit_def sample_comments_def sample_coverage_def sample_summary_def
        shouldCommentCoverage_def shouldRunOnlyChangedFiles_def getJestCommand_def
        getCoverageTable_def createCoverageMap_def getPullId_def
        deletePreviousComments_def sample_results_def replace_def strip_ansi_def
        COVERAGE_HEADER_def markdown_table_def table_line_def align_cell_def
        string_of_int_def digit_def string_of_nat_digit string_of_nat_step)

end
